theory Spec2Isabelle
  imports Complex_Main
begin

section \<open>Smart bin dashboard: role detection, access gating, reports, marker colours\<close>

text \<open>
  The development follows \<^verbatim>\<open>src/Home.jsx\<close>. The component \<^verbatim>\<open>Home\<close> keeps its state in
  \<^verbatim>\<open>useState\<close> cells and changes it from event handlers and from two asynchronous
  functions that call HTTP endpoints. Here the cells are the fields of one record, a
  function of the component takes the state and returns the state it leaves, and what the
  network answers is an argument of the function that asks.

  Conventions of the embedding:
  \<^item> a JavaScript value that is a string or \<^verbatim>\<open>null\<close>/\<^verbatim>\<open>undefined\<close> is a \<open>string option\<close>;
    the code never tells \<^verbatim>\<open>null\<close> from \<^verbatim>\<open>undefined\<close> (it only uses \<^verbatim>\<open>||\<close>, \<^verbatim>\<open>??\<close>, \<^verbatim>\<open>?.\<close>
    and \<^verbatim>\<open>!\<close> on such values), so both are \<open>None\<close>. Response fields are taken at the type
    the endpoints declare: strings that may be absent;
  \<^item> a string is the list of the bytes of its UTF-8 encoding, so that two strings are equal
    exactly when their byte lists are; an ASCII character is one byte below 128, every
    other character is two to four bytes, all of them 128 or more;
  \<^item> a thrown exception or a rejected promise is a value: an asynchronous function returns
    a pair of \<open>js_error option\<close> (\<open>None\<close> when its promise is fulfilled) and the state;
  \<^item> \<^verbatim>\<open>fetch\<close>, \<^verbatim>\<open>navigate\<close>, \<^verbatim>\<open>setTimeout\<close> and \<^verbatim>\<open>console\<close> are recorded in the state, in
    the order of the calls;
  \<^item> an event handler is a closure of the render that defined it. The navigation handlers
    take two states: the one the component was rendered with, which fixes the constants
    of the component body that they read, and the one at the time of the call, which
    they change. The asynchronous functions are followed from the state they are started
    in, which is also the state they were rendered with.

  The function \<^verbatim>\<open>haversineDistance\<close> (lines 524 to 534 of the file) computes in IEEE double
  arithmetic with the \<^verbatim>\<open>Math\<close> library of the runtime. It is not embedded here.
\<close>

subsection \<open>JavaScript operators on optional strings\<close>

text \<open>\<^verbatim>\<open>x || d\<close> for \<open>x\<close> a string or null: the empty string is falsy.\<close>

definition js_or :: "string option \<Rightarrow> string \<Rightarrow> string" where
  "js_or x d = (case x of None \<Rightarrow> d | Some s \<Rightarrow> if s = [] then d else s)"

text \<open>\<^verbatim>\<open>x ?? d\<close>: only null and undefined are replaced.\<close>

definition nullish :: "'a option \<Rightarrow> 'a \<Rightarrow> 'a" where
  "nullish x d = (case x of None \<Rightarrow> d | Some v \<Rightarrow> v)"

text \<open>The em dash of the user-facing messages, as its three UTF-8 bytes.\<close>

definition em_dash :: string where
  "em_dash = [CHR 0xE2, CHR 0x80, CHR 0x94]"

subsection \<open>\<^verbatim>\<open>String.prototype.toLowerCase\<close>\<close>

text \<open>
  ECMAScript lower-cases a string character by character, with the locale-insensitive
  mappings of the Unicode Character Database, some of which look at the characters around
  (the final sigma). The database belongs to the runtime, not to the repository. What it
  says of the characters that matter to a comparison with an ASCII word is written out
  below; the rest of it is a parameter of type \<open>ucd\<close>: given the bytes before a character,
  the bytes of the character (which is not ASCII) and the bytes after it, the bytes of its
  lower case.
\<close>

type_synonym ucd = "string \<Rightarrow> string \<Rightarrow> string \<Rightarrow> string"

definition is_ascii :: "char \<Rightarrow> bool" where
  "is_ascii c = ((of_char c :: nat) < 128)"

text \<open>An ASCII character: \<open>A\<close> to \<open>Z\<close> (65 to 90) go to \<open>a\<close> to \<open>z\<close>, nothing else changes.\<close>

definition toLowerCase_char :: "char \<Rightarrow> char" where
  "toLowerCase_char c =
     (let n = (of_char c :: nat) in if 65 \<le> n \<and> n \<le> 90 then char_of (n + 32) else c)"

text \<open>
  U+212A KELVIN SIGN, in UTF-8. Its lower case is \<open>k\<close>: it is the one character outside
  ASCII whose lower case is an ASCII word.
\<close>

definition kelvin_sign :: string where
  "kelvin_sign = [CHR 0xE2, CHR 0x84, CHR 0xAA]"

text \<open>The number of bytes of the character that a byte starts, in UTF-8.\<close>

definition utf8_length :: "char \<Rightarrow> nat" where
  "utf8_length b =
     (let n = (of_char b :: nat)
      in if n < 192 then 1 else if n < 224 then 2 else if n < 240 then 3 else 4)"

text \<open>
  Lower-casing what is left of a string, \<open>pre\<close> being the part already passed: an ASCII
  character by \<open>toLowerCase_char\<close>, the Kelvin sign to \<open>k\<close>, any other character by the
  database.
\<close>

fun lower_from :: "ucd \<Rightarrow> string \<Rightarrow> string \<Rightarrow> string" where
  "lower_from ucd pre [] = []"
| "lower_from ucd pre (b # bs) =
     (if is_ascii b then toLowerCase_char b # lower_from ucd (pre @ [b]) bs
      else (if b # take (utf8_length b - 1) bs = kelvin_sign then ''k''
            else ucd pre (b # take (utf8_length b - 1) bs) (drop (utf8_length b - 1) bs))
           @ lower_from ucd (pre @ b # take (utf8_length b - 1) bs)
               (drop (utf8_length b - 1) bs))"

definition toLowerCase :: "ucd \<Rightarrow> string \<Rightarrow> string" where
  "toLowerCase ucd s = lower_from ucd [] s"

text \<open>
  The one fact about the rest of the database that is used below: but for the Kelvin sign,
  the lower case of a character outside ASCII has a character outside ASCII in it. (So has
  the two-character lower case of U+0130, the dotted capital I: an \<open>i\<close> and a combining
  dot.)
\<close>

definition unicode_lowering :: "ucd \<Rightarrow> bool" where
  "unicode_lowering ucd =
     (\<forall>pre b bs rest.
        \<not> is_ascii b \<and> b # bs \<noteq> kelvin_sign
        \<longrightarrow> (\<exists>x \<in> set (ucd pre (b # bs) rest). \<not> is_ascii x))"

text \<open>
  A table that leaves every character as it is. It is not the database; it has the property
  above, and serves as a table where one is needed and no character is looked up in it.
\<close>

definition identity_table :: ucd where
  "identity_table pre c rest = c"

subsection \<open>Data model\<close>

text \<open>
  \<^verbatim>\<open>roleInfo\<close>: \<^verbatim>\<open>{ role, source, id, description }\<close>. The body of a \<^verbatim>\<open>detect-role\<close>
  response is read through the same four fields, so it has the same type.
\<close>

record role_info =
  role :: "string option"
  source :: "string option"
  id_field :: "string option"
  description :: "string option"

record report_payload =
  binId :: string
  note_field :: string

text \<open>\<^verbatim>\<open>reportStatus\<close>: \<^verbatim>\<open>{ type, text }\<close>, or null.\<close>

record report_status =
  status_type :: string
  status_text :: string

text \<open>The body of the IP lookup's answer: \<^verbatim>\<open>{ ip }\<close>.\<close>

record ip_body =
  ip_field :: "string option"

subsection \<open>The network\<close>

datatype js_error =
    NetworkError                 \<comment> \<open>\<^verbatim>\<open>fetch\<close> rejects\<close>
  | SyntaxError                  \<comment> \<open>\<^verbatim>\<open>res.json()\<close> rejects\<close>
  | TypeError                    \<comment> \<open>a property of \<^verbatim>\<open>null\<close> is read\<close>
  | ServerError nat string       \<comment> \<open>\<^verbatim>\<open>new Error(`Server ${res.status} ${txt}`)\<close>\<close>
  | ReportFailed                 \<comment> \<open>\<^verbatim>\<open>new Error("report failed")\<close>\<close>

text \<open>
  What \<^verbatim>\<open>res.json()\<close> yields when it does not reject: \<^verbatim>\<open>null\<close>, or a value whose fields
  can be read (a field that is absent reads as \<open>None\<close>).
\<close>

datatype 'b json = JNull | JObject 'b

text \<open>
  A response: its status, \<^verbatim>\<open>res.text()\<close> (\<open>None\<close> when it rejects) and \<^verbatim>\<open>res.json()\<close>
  (\<open>None\<close> when it rejects).
\<close>

record 'b response =
  res_status :: nat
  res_text :: "string option"
  res_json :: "'b json option"

text \<open>\<^verbatim>\<open>res.ok\<close>: the status is in the range 200 to 299 (Fetch standard).\<close>

definition ok :: "'b response \<Rightarrow> bool" where
  "ok res = (200 \<le> res_status res \<and> res_status res \<le> 299)"

datatype 'b fetch_outcome = Rejected | Resolved "'b response"

text \<open>\<^verbatim>\<open>data?.f\<close>\<close>

definition opt_chain :: "'b json \<Rightarrow> ('b \<Rightarrow> 'a option) \<Rightarrow> 'a option" where
  "opt_chain data f = (case data of JNull \<Rightarrow> None | JObject d \<Rightarrow> f d)"

datatype request =
    GetIp                        \<comment> \<open>\<^verbatim>\<open>fetch("https://api.ipify.org?format=json")\<close>\<close>
  | PostDetect string            \<comment> \<open>\<^verbatim>\<open>POST DETECT_ENDPOINT\<close> with body \<^verbatim>\<open>{ ip }\<close>\<close>
  | PostReport report_payload    \<comment> \<open>\<^verbatim>\<open>POST REPORT_ENDPOINT\<close> with the payload as body\<close>

datatype timer_callback =
    ClearError                   \<comment> \<open>\<^verbatim>\<open>() => setError(null)\<close>\<close>
  | ClearReportStatus            \<comment> \<open>\<^verbatim>\<open>() => setReportStatus(null)\<close>\<close>

datatype console_entry =
    ConsoleError string js_error
  | ConsoleWarn string js_error

subsection \<open>The state of \<^verbatim>\<open>Home\<close>\<close>

record home_state =
  roleInfo :: role_info
  loading :: bool
  error :: "string option"
  manualIp :: string
  useManual :: bool
  showReport :: bool
  reportPayload :: report_payload
  reportStatus :: "report_status option"
  requests :: "request list"                     \<comment> \<open>calls of \<^verbatim>\<open>fetch\<close>\<close>
  timers :: "(nat \<times> timer_callback) list"         \<comment> \<open>calls of \<^verbatim>\<open>setTimeout\<close>: delay in ms, callback\<close>
  navigated :: "string list"                     \<comment> \<open>calls of \<^verbatim>\<open>navigate\<close>\<close>
  console :: "console_entry list"

text \<open>
  The initial values of the \<^verbatim>\<open>useState\<close> cells. (\<^verbatim>\<open>selectedBin\<close> is left out of the state:
  no function below reads or writes it.)
\<close>

definition initial_state :: home_state where
  "initial_state =
     \<lparr> roleInfo = \<lparr> role = Some ''detecting'', source = None, id_field = None, description = None \<rparr>,
       loading = True,
       error = None,
       manualIp = '''',
       useManual = False,
       showReport = False,
       reportPayload = \<lparr> binId = '''', note_field = '''' \<rparr>,
       reportStatus = None,
       requests = [],
       timers = [],
       navigated = [],
       console = [] \<rparr>"

text \<open>Running a timer's callback.\<close>

definition run_callback :: "timer_callback \<Rightarrow> home_state \<Rightarrow> home_state" where
  "run_callback cb st =
     (case cb of
        ClearError \<Rightarrow> st\<lparr>error := None\<rparr>
      | ClearReportStatus \<Rightarrow> st\<lparr>reportStatus := None\<rparr>)"

subsection \<open>Role detection\<close>

text \<open>
  The constants \<^verbatim>\<open>normalizedRole\<close>, \<^verbatim>\<open>showAdminButton\<close> and \<^verbatim>\<open>showDriverButton\<close> of the
  component body, computed at each render from the state of that render.
\<close>

definition normalizedRole :: "ucd \<Rightarrow> home_state \<Rightarrow> string" where
  "normalizedRole ucd st = toLowerCase ucd (js_or (role (roleInfo st)) '''')"

definition showAdminButton :: "ucd \<Rightarrow> home_state \<Rightarrow> bool" where
  "showAdminButton ucd st = (normalizedRole ucd st = ''admin'')"

definition showDriverButton :: "ucd \<Rightarrow> home_state \<Rightarrow> bool" where
  "showDriverButton ucd st =
     (normalizedRole ucd st = ''driver'' \<or> normalizedRole ucd st = ''truck'')"

text \<open>
  The \<^verbatim>\<open>try\<close> block of \<^verbatim>\<open>callDetectEndpoint\<close>, after \<^verbatim>\<open>fetch\<close> has been called: it throws when
  the call rejects, when the response is not ok and when the body cannot be parsed, and
  otherwise sets \<^verbatim>\<open>roleInfo\<close> from the body.
\<close>

definition callDetectEndpoint_try ::
  "role_info fetch_outcome \<Rightarrow> string \<Rightarrow> home_state \<Rightarrow> js_error option \<times> home_state" where
  "callDetectEndpoint_try outcome ip st =
     (case outcome of
        Rejected \<Rightarrow> (Some NetworkError, st)
      | Resolved res \<Rightarrow>
          if \<not> ok res then (Some (ServerError (res_status res) (nullish (res_text res) '''')), st)
          else (case res_json res of
                  None \<Rightarrow> (Some SyntaxError, st)
                | Some data \<Rightarrow>
                    (None, st\<lparr>roleInfo :=
                       \<lparr> role = Some (nullish (opt_chain data role) ''user''),
                         source = Some (nullish (opt_chain data source) ip),
                         id_field = opt_chain data id_field,
                         description = Some (nullish (opt_chain data description) '''') \<rparr>\<rparr>)))"

text \<open>The \<^verbatim>\<open>catch\<close> block of \<^verbatim>\<open>callDetectEndpoint\<close>.\<close>

definition callDetectEndpoint_catch ::
  "js_error \<Rightarrow> string \<Rightarrow> home_state \<Rightarrow> js_error option \<times> home_state" where
  "callDetectEndpoint_catch err ip st =
     (None, st\<lparr>console := console st @ [ConsoleError ''detect-role error:'' err],
               error := Some ''Failed to detect role. Make sure backend is running and allows CORS.'',
               roleInfo := (roleInfo st)\<lparr>role := Some ''guest'', source := Some ip\<rparr>\<rparr>)"

text \<open>
  \<^verbatim>\<open>callDetectEndpoint(ip)\<close>; \<open>server\<close> is what the detection endpoint answers to a request
  for the given address. The last line is the \<^verbatim>\<open>finally\<close> block, which runs however the
  \<^verbatim>\<open>try\<close> and \<^verbatim>\<open>catch\<close> blocks end.
\<close>

definition callDetectEndpoint ::
  "(string \<Rightarrow> role_info fetch_outcome) \<Rightarrow> string \<Rightarrow> home_state \<Rightarrow> js_error option \<times> home_state" where
  "callDetectEndpoint server ip st =
     (let st1 = st\<lparr>loading := True, error := None\<rparr>;
          st2 = st1\<lparr>requests := requests st1 @ [PostDetect ip]\<rparr>;
          (e, st3) = (case callDetectEndpoint_try (server ip) ip st2 of
                        (Some err, s) \<Rightarrow> callDetectEndpoint_catch err ip s
                      | (None, s) \<Rightarrow> (None, s))
      in (e, st3\<lparr>loading := False\<rparr>))"

text \<open>
  The \<^verbatim>\<open>try\<close> block of \<^verbatim>\<open>detectRoleFlow\<close>, after \<^verbatim>\<open>fetch\<close> has been called: the value it
  leaves in the local variable \<^verbatim>\<open>ip\<close> (which starts as the empty string), or the exception.
\<close>

definition detectRoleFlow_try :: "ip_body fetch_outcome \<Rightarrow> js_error + string" where
  "detectRoleFlow_try outcome =
     (case outcome of
        Rejected \<Rightarrow> Inl NetworkError
      | Resolved r \<Rightarrow>
          if ok r then
            (case res_json r of
               None \<Rightarrow> Inl SyntaxError
             | Some JNull \<Rightarrow> Inl TypeError
             | Some (JObject data) \<Rightarrow> Inr (js_or (ip_field data) ''''))
          else Inr '''')"

text \<open>
  The address \<^verbatim>\<open>detectRoleFlow\<close> submits on its automatic path: the \<^verbatim>\<open>catch\<close> block
  resets \<^verbatim>\<open>ip\<close> to the empty string, and \<^verbatim>\<open>if (!ip) ip = "203.0.173.5"\<close> follows.
\<close>

definition detectRoleFlow_ip :: "ip_body fetch_outcome \<Rightarrow> string" where
  "detectRoleFlow_ip ipify =
     (let ip1 = (case detectRoleFlow_try ipify of Inl err \<Rightarrow> '''' | Inr a \<Rightarrow> a)
      in if ip1 = [] then ''203.0.173.5'' else ip1)"

text \<open>
  \<^verbatim>\<open>detectRoleFlow()\<close>; \<open>ipify\<close> is the outcome of the IP lookup, should it be made. An
  exception of \<^verbatim>\<open>await callDetectEndpoint(...)\<close> would leave the function at once.
\<close>

definition detectRoleFlow ::
  "ip_body fetch_outcome \<Rightarrow> (string \<Rightarrow> role_info fetch_outcome) \<Rightarrow> home_state \<Rightarrow>
     js_error option \<times> home_state" where
  "detectRoleFlow ipify server st =
     (let st1 = st\<lparr>loading := True, error := None\<rparr> in
      if useManual st \<and> manualIp st \<noteq> [] then
        (case callDetectEndpoint server (manualIp st) st1 of
           (Some e, st2) \<Rightarrow> (Some e, st2)
         | (None, st2) \<Rightarrow> (None, st2\<lparr>loading := False\<rparr>))
      else
        (let st2 = st1\<lparr>requests := requests st1 @ [GetIp]\<rparr>;
             ip = detectRoleFlow_ip ipify
         in (case callDetectEndpoint server ip st2 of
               (Some e, st3) \<Rightarrow> (Some e, st3)
             | (None, st3) \<Rightarrow> (None, st3\<lparr>loading := False\<rparr>))))"

text \<open>\<^verbatim>\<open>handleDetectClick()\<close>\<close>

definition handleDetectClick ::
  "ip_body fetch_outcome \<Rightarrow> (string \<Rightarrow> role_info fetch_outcome) \<Rightarrow> home_state \<Rightarrow>
     js_error option \<times> home_state" where
  "handleDetectClick ipify server st =
     (if useManual st \<and> manualIp st = []
      then (None, st\<lparr>error := Some ''Please enter an IP to use manual detection.''\<rparr>)
      else detectRoleFlow ipify server (st\<lparr>error := None\<rparr>))"

text \<open>A detection endpoint that cannot be reached, and one that answers 500 to everything.\<close>

definition unreachable_server :: "string \<Rightarrow> role_info fetch_outcome" where
  "unreachable_server a = Rejected"

definition failing_server :: "string \<Rightarrow> role_info fetch_outcome" where
  "failing_server a =
     Resolved \<lparr> res_status = 500, res_text = Some ''Internal Server Error'', res_json = None \<rparr>"

text \<open>A detection endpoint that knows one administrator's address.\<close>

definition office_server :: "string \<Rightarrow> role_info fetch_outcome" where
  "office_server a =
     Resolved \<lparr> res_status = 200, res_text = None,
                res_json = Some (JObject
                  \<lparr> role = (if a = ''10.0.0.1'' then Some ''Admin'' else Some ''user''),
                    source = None, id_field = Some ''u-17'', description = None \<rparr>) \<rparr>"

text \<open>The calls of the detection endpoint among the requests made, in order.\<close>

fun detect_calls :: "request list \<Rightarrow> string list" where
  "detect_calls [] = []"
| "detect_calls (PostDetect a # rs) = a # detect_calls rs"
| "detect_calls (r # rs) = detect_calls rs"

subsection \<open>Access gating\<close>

text \<open>
  \<^verbatim>\<open>handleAdminNavigate()\<close> and \<^verbatim>\<open>handleDriverNavigate()\<close>. The handlers are defined in the
  body of the component and test \<^verbatim>\<open>showAdminButton\<close> and \<^verbatim>\<open>showDriverButton\<close>, constants of
  that body: \<open>rendered\<close> is the state of the render that defined the handler, \<open>st\<close> the state
  when it is called. \<^verbatim>\<open>setError\<close>, \<^verbatim>\<open>setTimeout\<close> and \<^verbatim>\<open>navigate\<close> act on \<open>st\<close>.
\<close>

definition handleAdminNavigate :: "ucd \<Rightarrow> home_state \<Rightarrow> home_state \<Rightarrow> home_state" where
  "handleAdminNavigate ucd rendered st =
     (if \<not> showAdminButton ucd rendered
      then st\<lparr>error := Some (''Access denied '' @ em_dash @ '' admin IP not detected.''),
              timers := timers st @ [(2500, ClearError)]\<rparr>
      else st\<lparr>navigated := navigated st @ [''/admin'']\<rparr>)"

definition handleDriverNavigate :: "ucd \<Rightarrow> home_state \<Rightarrow> home_state \<Rightarrow> home_state" where
  "handleDriverNavigate ucd rendered st =
     (if \<not> showDriverButton ucd rendered
      then st\<lparr>error := Some (''Access denied '' @ em_dash @ '' driver IP not detected.''),
              timers := timers st @ [(2500, ClearError)]\<rparr>
      else st\<lparr>navigated := navigated st @ [''/driver'']\<rparr>)"


subsection \<open>Reports\<close>

text \<open>
  The \<^verbatim>\<open>try\<close> block of \<^verbatim>\<open>submitReport\<close>, after \<^verbatim>\<open>fetch\<close> has been called. The body of the
  response is not read.
\<close>

definition submitReport_try ::
  "unit fetch_outcome \<Rightarrow> home_state \<Rightarrow> js_error option \<times> home_state" where
  "submitReport_try outcome st =
     (case outcome of
        Rejected \<Rightarrow> (Some NetworkError, st)
      | Resolved res \<Rightarrow>
          if \<not> ok res then (Some ReportFailed, st)
          else (None, st\<lparr>reportStatus :=
                            Some \<lparr> status_type = ''success'',
                                   status_text = ''Report submitted '' @ em_dash @ '' thank you!'' \<rparr>,
                          showReport := False,
                          reportPayload := \<lparr> binId = '''', note_field = '''' \<rparr>\<rparr>))"

text \<open>The \<^verbatim>\<open>catch\<close> block of \<^verbatim>\<open>submitReport\<close>.\<close>

definition submitReport_catch :: "js_error \<Rightarrow> home_state \<Rightarrow> js_error option \<times> home_state" where
  "submitReport_catch err st =
     (None, st\<lparr>console := console st @ [ConsoleWarn ''report error'' err],
               reportStatus :=
                 Some \<lparr> status_type = ''error'',
                        status_text = ''Could not submit report (backend may be missing).'' \<rparr>\<rparr>)"

text \<open>
  \<^verbatim>\<open>submitReport(e)\<close>; \<open>endpoint\<close> is what the report endpoint answers to a payload. The last
  line is the \<^verbatim>\<open>finally\<close> block. (\<^verbatim>\<open>e.preventDefault()\<close> touches nothing of the state.)
\<close>

definition submitReport ::
  "(report_payload \<Rightarrow> unit fetch_outcome) \<Rightarrow> home_state \<Rightarrow> js_error option \<times> home_state" where
  "submitReport endpoint st =
     (let st1 = st\<lparr>reportStatus :=
                     Some \<lparr> status_type = ''loading'', status_text = ''Submitting report...'' \<rparr>\<rparr>;
          st2 = st1\<lparr>requests := requests st1 @ [PostReport (reportPayload st)]\<rparr>;
          (e, st3) = (case submitReport_try (endpoint (reportPayload st)) st2 of
                        (Some err, s) \<Rightarrow> submitReport_catch err s
                      | (None, s) \<Rightarrow> (None, s))
      in (e, st3\<lparr>timers := timers st3 @ [(3000, ClearReportStatus)]\<rparr>))"

text \<open>A report endpoint that is not there, as when the backend is missing.\<close>

definition missing_report_endpoint :: "report_payload \<Rightarrow> unit fetch_outcome" where
  "missing_report_endpoint p = Rejected"

text \<open>The modal is open and the user has typed a report.\<close>

definition typed_report_state :: home_state where
  "typed_report_state =
     initial_state\<lparr>showReport := True,
                   reportPayload := \<lparr> binId = ''BIN-A'', note_field = ''full'' \<rparr>\<rparr>"

subsection \<open>Marker colours\<close>

text \<open>
  A bin as \<^verbatim>\<open>BinMap\<close> receives it: \<^verbatim>\<open>{ id, title, lat, lng, status, dist }\<close>. The type \<open>'n\<close> is
  that of the two coordinates, which the colour does not read.
\<close>

record 'n bin =
  bin_id :: string
  title :: string
  lat :: 'n
  lng :: 'n
  status :: "string option"
  dist_label :: string

text \<open>The expression bound to \<^verbatim>\<open>color\<close> in the marker loop of \<^verbatim>\<open>BinMap\<close>.\<close>

definition BinMap_color :: "ucd \<Rightarrow> 'n bin \<Rightarrow> string" where
  "BinMap_color ucd b =
     (if toLowerCase ucd (js_or (status b) '''') = ''overflow'' then ''#ef4444''
      else if toLowerCase ucd (js_or (status b) '''') = ''full'' then ''#ef4444''
      else if toLowerCase ucd (js_or (status b) '''') = ''ok''
              \<or> toLowerCase ucd (js_or (status b) '''') = ''normal'' then ''#0ea5e9''
      else ''#f59e0b'')"

text \<open>
  The three \<^verbatim>\<open>demoBins\<close> as they are handed to \<^verbatim>\<open>BinMap\<close>, the coordinates as the decimal
  numbers of the source text.
\<close>

definition bin_A :: "rat bin" where
  "bin_A = \<lparr> bin_id = ''BIN-A'', title = ''Bin A'', lat = 12.9721, lng = 77.5948,
             status = Some ''OVERFLOW'', dist_label = ''0.05 km'' \<rparr>"

definition bin_B :: "rat bin" where
  "bin_B = \<lparr> bin_id = ''BIN-B'', title = ''Bin B'', lat = 12.9710, lng = 77.5960,
             status = Some ''OK'', dist_label = ''0.10 km'' \<rparr>"

definition bin_C :: "rat bin" where
  "bin_C = \<lparr> bin_id = ''BIN-C'', title = ''Bin C'', lat = 12.9702, lng = 77.5930,
             status = Some ''FULL'', dist_label = ''0.85 km'' \<rparr>"

subsection \<open>Notions of the specification\<close>

text \<open>
  A word written without regard to the case of its letters. The variants of a lower-case
  letter are the letter and its capital; \<open>k\<close> has a third, the Kelvin sign, which Unicode
  folds to \<open>k\<close> as it does \<open>K\<close>. \<open>case_variant w s\<close>: the string \<open>s\<close> is the word \<open>w\<close> (given in
  lower case) with each letter in one of its variants.
\<close>

definition is_lower_letter :: "char \<Rightarrow> bool" where
  "is_lower_letter c = (97 \<le> (of_char c :: nat) \<and> (of_char c :: nat) \<le> 122)"

definition toUpperCase_char :: "char \<Rightarrow> char" where
  "toUpperCase_char c =
     (let n = (of_char c :: nat) in if 97 \<le> n \<and> n \<le> 122 then char_of (n - 32) else c)"

definition letter_variants :: "char \<Rightarrow> string list" where
  "letter_variants l =
     (if is_lower_letter l then [[l], [toUpperCase_char l]] else [[l]])
     @ (if l = CHR ''k'' then [kelvin_sign] else [])"

fun case_variant :: "string \<Rightarrow> string \<Rightarrow> bool" where
  "case_variant [] s = (s = [])"
| "case_variant (l # ls) s =
     list_ex (\<lambda>v. take (length v) s = v \<and> case_variant ls (drop (length v) s))
       (letter_variants l)"

text \<open>
  The IP lookup produced no address: a network error was thrown, the response was not ok,
  or its body was unreadable, null, or without a non-empty \<^verbatim>\<open>ip\<close> field.
\<close>

definition lookup_gave_no_address :: "ip_body fetch_outcome \<Rightarrow> bool" where
  "lookup_gave_no_address outcome =
     (case outcome of
        Rejected \<Rightarrow> True
      | Resolved r \<Rightarrow>
          if ok r then
            (case res_json r of
               None \<Rightarrow> True
             | Some JNull \<Rightarrow> True
             | Some (JObject data) \<Rightarrow> ip_field data = None \<or> ip_field data = Some '''')
          else True)"

text \<open>
  The detection call succeeded: the response was ok and its body was parsed. The result is
  the parsed body.
\<close>

definition detect_success :: "role_info fetch_outcome \<Rightarrow> role_info json option" where
  "detect_success outcome =
     (case outcome of
        Rejected \<Rightarrow> None
      | Resolved res \<Rightarrow> if ok res then res_json res else None)"

subsection \<open>Three reachable states\<close>

text \<open>
  The states that detection reaches from the initial one when the office server is asked
  about the administrator's address, and about another; and the state reached from the
  first when a second detection, for the same address, cannot reach the server.
\<close>

definition admin_state :: home_state where
  "admin_state = snd (callDetectEndpoint office_server ''10.0.0.1'' initial_state)"

definition user_state :: home_state where
  "user_state = snd (callDetectEndpoint office_server ''10.0.0.2'' initial_state)"


section \<open>Properties\<close>

subsection \<open>Auxiliary facts\<close>

lemma detect_calls_append: "detect_calls (xs @ ys) = detect_calls xs @ detect_calls ys"
  by (induction xs rule: detect_calls.induct) auto

lemma callDetectEndpoint_try_throws:
  assumes "outcome = Rejected \<or> (\<exists>res. outcome = Resolved res \<and> (\<not> ok res \<or> res_json res = None))"
  shows "fst (callDetectEndpoint_try outcome ip st) \<noteq> None"
  using assms by (auto simp: callDetectEndpoint_try_def)

lemma callDetectEndpoint_failure:
  assumes "fst (callDetectEndpoint_try (server ip) ip
             (st\<lparr>loading := True, error := None, requests := requests st @ [PostDetect ip]\<rparr>)) \<noteq> None"
  shows "fst (callDetectEndpoint server ip st) = None"
    and "roleInfo (snd (callDetectEndpoint server ip st))
           = (roleInfo st)\<lparr>role := Some ''guest'', source := Some ip\<rparr>"
    and "error (snd (callDetectEndpoint server ip st))
           = Some ''Failed to detect role. Make sure backend is running and allows CORS.''"
    and "loading (snd (callDetectEndpoint server ip st)) = False"
  using assms
  by (auto simp: callDetectEndpoint_def callDetectEndpoint_try_def callDetectEndpoint_catch_def
      Let_def split: fetch_outcome.splits if_splits option.splits prod.splits)

lemma callDetectEndpoint_returns: "fst (callDetectEndpoint server ip st) = None"
  by (auto simp: callDetectEndpoint_def callDetectEndpoint_try_def callDetectEndpoint_catch_def
      Let_def split: fetch_outcome.splits option.splits prod.splits)

lemma callDetectEndpoint_requests:
  "requests (snd (callDetectEndpoint server ip st)) = requests st @ [PostDetect ip]"
  by (auto simp: callDetectEndpoint_def callDetectEndpoint_try_def callDetectEndpoint_catch_def
      Let_def split: fetch_outcome.splits option.splits prod.splits)

lemma detectRoleFlow_try_no_address:
  "lookup_gave_no_address outcome \<Longrightarrow> detectRoleFlow_ip outcome = ''203.0.173.5''"
  by (auto simp: lookup_gave_no_address_def detectRoleFlow_try_def detectRoleFlow_ip_def js_or_def
      split: fetch_outcome.splits option.splits json.splits if_splits)

lemma detectRoleFlow_manual:
  assumes "useManual st \<and> manualIp st \<noteq> []"
  shows "detectRoleFlow ipify server st =
           (None, (snd (callDetectEndpoint server (manualIp st)
                          (st\<lparr>loading := True, error := None\<rparr>)))\<lparr>loading := False\<rparr>)"
proof -
  obtain s where s: "callDetectEndpoint server (manualIp st) (st\<lparr>loading := True, error := None\<rparr>)
                       = (None, s)"
    using callDetectEndpoint_returns by (metis prod.collapse)
  show ?thesis
    using assms by (simp add: detectRoleFlow_def s)
qed

lemma detectRoleFlow_automatic:
  assumes "\<not> (useManual st \<and> manualIp st \<noteq> [])"
  shows "detectRoleFlow ipify server st =
           (None, (snd (callDetectEndpoint server (detectRoleFlow_ip ipify)
                          (st\<lparr>loading := True, error := None,
                               requests := requests st @ [GetIp]\<rparr>)))\<lparr>loading := False\<rparr>)"
proof -
  obtain s where s: "callDetectEndpoint server (detectRoleFlow_ip ipify)
                        (st\<lparr>loading := True, error := None, requests := requests st @ [GetIp]\<rparr>)
                       = (None, s)"
    using callDetectEndpoint_returns by (metis prod.collapse)
  show ?thesis
    using assms s by (auto simp add: detectRoleFlow_def Let_def)
qed

subsection \<open>Failure of the detection call\<close>

text \<open>
  Claim C1. Whatever address is submitted, and whatever the state, when the detection
  endpoint answers with a status outside 200..299, or the call throws (\<^verbatim>\<open>fetch\<close> rejects,
  or the body of an ok response cannot be parsed), \<^verbatim>\<open>callDetectEndpoint\<close> still returns
  normally, and leaves a \<^verbatim>\<open>roleInfo\<close> whose role is \<^verbatim>\<open>"guest"\<close> and whose source is the
  submitted address, with the error message set for display.
\<close>

theorem callDetectEndpoint_failure_guest:
  assumes "server ip = Rejected
           \<or> (\<exists>res. server ip = Resolved res \<and> (\<not> ok res \<or> res_json res = None))"
  shows "fst (callDetectEndpoint server ip st) = None
       \<and> role (roleInfo (snd (callDetectEndpoint server ip st))) = Some ''guest''
       \<and> source (roleInfo (snd (callDetectEndpoint server ip st))) = Some ip
       \<and> error (snd (callDetectEndpoint server ip st))
           = Some ''Failed to detect role. Make sure backend is running and allows CORS.''"
proof -
  let ?st2 = "st\<lparr>loading := True, error := None, requests := requests st @ [PostDetect ip]\<rparr>"
  have thrown: "fst (callDetectEndpoint_try (server ip) ip ?st2) \<noteq> None"
    using assms by (rule callDetectEndpoint_try_throws)
  show ?thesis
    using thrown callDetectEndpoint_failure [of server ip st] by simp
qed

theorem callDetectEndpoint_failure_guest_witness:
  "(failing_server ''198.51.100.7'' = Rejected
      \<or> (\<exists>res. failing_server ''198.51.100.7'' = Resolved res \<and> (\<not> ok res \<or> res_json res = None)))
   \<and> fst (callDetectEndpoint failing_server ''198.51.100.7'' initial_state) = None
   \<and> role (roleInfo (snd (callDetectEndpoint failing_server ''198.51.100.7'' initial_state))) = Some ''guest''
   \<and> source (roleInfo (snd (callDetectEndpoint failing_server ''198.51.100.7'' initial_state)))
        = Some ''198.51.100.7''
   \<and> error (snd (callDetectEndpoint failing_server ''198.51.100.7'' initial_state))
        = Some ''Failed to detect role. Make sure backend is running and allows CORS.''"
proof -
  have h: "failing_server ''198.51.100.7'' = Rejected
      \<or> (\<exists>res. failing_server ''198.51.100.7'' = Resolved res \<and> (\<not> ok res \<or> res_json res = None))"
    by (simp add: failing_server_def ok_def)
  show ?thesis
    using h callDetectEndpoint_failure_guest [of failing_server "''198.51.100.7''" initial_state]
    by simp
qed

subsection \<open>Failure of the IP lookup\<close>

text \<open>
  Claim C2. Whatever the IP lookup and the detection endpoint answer, \<^verbatim>\<open>detectRoleFlow\<close>
  returns normally and adds exactly one call of the detection endpoint to the requests
  made; on the automatic path, when the lookup produced no address (network error, response
  not ok, body without an \<^verbatim>\<open>ip\<close>), that call submits \<^verbatim>\<open>"203.0.173.5"\<close>.
\<close>

theorem detectRoleFlow_lookup_fallback:
  "fst (detectRoleFlow ipify server st) = None
   \<and> (\<exists>a. detect_calls (requests (snd (detectRoleFlow ipify server st)))
              = detect_calls (requests st) @ [a]
          \<and> (\<not> (useManual st \<and> manualIp st \<noteq> []) \<and> lookup_gave_no_address ipify
               \<longrightarrow> a = ''203.0.173.5''))"
proof (cases "useManual st \<and> manualIp st \<noteq> []")
  case True
  show ?thesis
    using True by (simp add: detectRoleFlow_manual callDetectEndpoint_requests detect_calls_append)
next
  case False
  show ?thesis
    using False
    by (simp add: detectRoleFlow_automatic callDetectEndpoint_requests detect_calls_append
        detectRoleFlow_try_no_address)
qed

theorem detectRoleFlow_lookup_fallback_witness:
  "\<not> (useManual initial_state \<and> manualIp initial_state \<noteq> [])
   \<and> lookup_gave_no_address Rejected
   \<and> fst (detectRoleFlow Rejected unreachable_server initial_state) = None
   \<and> detect_calls (requests (snd (detectRoleFlow Rejected unreachable_server initial_state)))
       = [''203.0.173.5'']"
proof -
  have h: "\<not> (useManual initial_state \<and> manualIp initial_state \<noteq> []) \<and> lookup_gave_no_address Rejected"
    by (simp add: initial_state_def lookup_gave_no_address_def)
  have r: "detect_calls (requests initial_state) = []"
    by (simp add: initial_state_def)
  show ?thesis
    using h r detectRoleFlow_lookup_fallback [of Rejected unreachable_server initial_state]
    by auto
qed

subsection \<open>Lower case\<close>

lemma char_of_nat_eq: "char_of (n::nat) = c \<longleftrightarrow> n mod 256 = of_char c"
  by (simp add: char_of_eq_iff take_bit_eq_mod)

lemma eq_char_of_nat: "c = char_of (n::nat) \<longleftrightarrow> n mod 256 = of_char c"
  using char_of_nat_eq [of n c] by auto

lemma identity_table_lowering: "unicode_lowering identity_table"
  by (auto simp: unicode_lowering_def identity_table_def)

lemma lower_ascii_char:
  assumes "is_ascii b" "is_lower_letter l"
  shows "toLowerCase_char b = l \<longleftrightarrow> b = l \<or> b = toUpperCase_char l"
proof -
  have l: "97 \<le> (of_char l :: nat)" "(of_char l :: nat) \<le> 122"
    using assms(2) by (simp_all add: is_lower_letter_def)
  have u: "toUpperCase_char l = char_of ((of_char l :: nat) - 32)"
    using l by (simp add: toUpperCase_char_def)
  have bu: "b = toUpperCase_char l \<longleftrightarrow> (of_char b :: nat) = of_char l - 32"
    using l nat_of_char_less_256 [of l] by (auto simp: u eq_char_of_nat)
  have bl: "b = l \<longleftrightarrow> (of_char b :: nat) = of_char l"
    by simp
  show ?thesis
  proof (cases "65 \<le> (of_char b :: nat) \<and> (of_char b :: nat) \<le> 90")
    case True
    then have "toLowerCase_char b = l \<longleftrightarrow> (of_char b :: nat) + 32 = of_char l"
      by (auto simp: toLowerCase_char_def char_of_nat_eq)
    then show ?thesis
      using True l unfolding bu bl by auto
  next
    case False
    then have "toLowerCase_char b = b"
      by (auto simp: toLowerCase_char_def)
    then show ?thesis
      using False l unfolding bu bl by auto
  qed
qed

lemma lower_letter_ascii: "is_lower_letter l \<Longrightarrow> is_ascii l"
  by (simp add: is_lower_letter_def is_ascii_def)

lemma upper_letter_ascii:
  assumes "is_lower_letter l"
  shows "is_ascii (toUpperCase_char l)"
proof -
  have "(of_char l :: nat) - 32 < 128"
    using assms unfolding is_lower_letter_def by linarith
  then show ?thesis
    using assms by (simp add: is_lower_letter_def is_ascii_def toUpperCase_char_def)
qed

lemma length_kelvin_sign: "length kelvin_sign = 3"
  by (simp add: kelvin_sign_def)

lemma kelvin_lead:
  assumes "b # bs = kelvin_sign"
  shows "utf8_length b = 3" and "\<not> is_ascii b"
  using assms by (simp_all add: kelvin_sign_def utf8_length_def is_ascii_def)

lemma kelvin_chunk:
  "b # take (utf8_length b - 1) bs = kelvin_sign \<longleftrightarrow> take 3 (b # bs) = kelvin_sign"
proof
  assume h: "b # take (utf8_length b - 1) bs = kelvin_sign"
  then have "utf8_length b = 3" by (rule kelvin_lead)
  with h show "take 3 (b # bs) = kelvin_sign"
    by (simp add: numeral_3_eq_3)
next
  assume h: "take 3 (b # bs) = kelvin_sign"
  then have "b # take 2 bs = kelvin_sign"
    by (simp add: numeral_3_eq_3 numeral_2_eq_2)
  moreover from this have "utf8_length b = 3" by (rule kelvin_lead)
  ultimately show "b # take (utf8_length b - 1) bs = kelvin_sign"
    by simp
qed

lemma lower_from_non_ascii:
  assumes "unicode_lowering ucd" "\<not> is_ascii b"
    and "b # take (utf8_length b - 1) bs \<noteq> kelvin_sign"
  shows "\<exists>x \<in> set (lower_from ucd pre (b # bs)). \<not> is_ascii x"
proof -
  let ?c = "b # take (utf8_length b - 1) bs"
  let ?r = "drop (utf8_length b - 1) bs"
  have "\<exists>x \<in> set (ucd pre ?c ?r). \<not> is_ascii x"
    using assms unfolding unicode_lowering_def by blast
  moreover have "lower_from ucd pre (b # bs) = ucd pre ?c ?r @ lower_from ucd (pre @ ?c) ?r"
    using assms(2,3) by simp
  ultimately show ?thesis
    by auto
qed

lemma lower_from_Nil_iff:
  assumes "unicode_lowering ucd"
  shows "lower_from ucd pre s = [] \<longleftrightarrow> s = []"
proof (cases s)
  case Nil
  then show ?thesis by simp
next
  case (Cons b bs)
  show ?thesis
  proof (cases "is_ascii b \<or> b # take (utf8_length b - 1) bs = kelvin_sign")
    case True
    then show ?thesis using Cons by auto
  next
    case False
    then have "\<exists>x \<in> set (lower_from ucd pre (b # bs)). \<not> is_ascii x"
      using assms by (intro lower_from_non_ascii) simp_all
    then have "lower_from ucd pre (b # bs) \<noteq> []"
      by fastforce
    then show ?thesis using Cons by simp
  qed
qed

lemma case_variant_Cons:
  assumes "is_lower_letter l"
  shows "case_variant (l # ls) s \<longleftrightarrow>
           (take 1 s = [l] \<and> case_variant ls (drop 1 s))
           \<or> (take 1 s = [toUpperCase_char l] \<and> case_variant ls (drop 1 s))
           \<or> (l = CHR ''k'' \<and> take 3 s = kelvin_sign \<and> case_variant ls (drop 3 s))"
  using assms by (auto simp: letter_variants_def length_kelvin_sign)

lemma lower_from_case_variant:
  assumes ucd: "unicode_lowering ucd"
  shows "list_all is_lower_letter lit \<Longrightarrow> lower_from ucd pre s = lit \<longleftrightarrow> case_variant lit s"
proof (induction lit arbitrary: pre s)
  case Nil
  then show ?case
    using lower_from_Nil_iff [OF ucd] by simp
next
  case (Cons l ls)
  then have l: "is_lower_letter l" and ls: "list_all is_lower_letter ls"
    by simp_all
  note IH = Cons.IH [OF ls]
  show ?case
  proof (cases s)
    case Nil
    then show ?thesis
      by (simp add: case_variant_Cons [OF l] kelvin_sign_def del: case_variant.simps)
  next
    case s: (Cons b bs)
    have t1: "take 1 (b # bs) = [b]" and d1: "drop 1 (b # bs) = bs"
      by simp_all
    have d3: "drop 3 (b # bs) = drop 2 bs"
      by (simp add: numeral_3_eq_3 numeral_2_eq_2)
    show ?thesis
    proof (cases "is_ascii b")
      case True
      have nk: "take 3 (b # bs) \<noteq> kelvin_sign"
      proof
        assume "take 3 (b # bs) = kelvin_sign"
        then have "b # take 2 bs = kelvin_sign"
          by (simp add: numeral_3_eq_3 numeral_2_eq_2)
        then have "\<not> is_ascii b" by (rule kelvin_lead)
        with True show False by simp
      qed
      have "lower_from ucd pre (b # bs) = l # ls
              \<longleftrightarrow> toLowerCase_char b = l \<and> lower_from ucd (pre @ [b]) bs = ls"
        using True by simp
      also have "\<dots> \<longleftrightarrow> (b = l \<or> b = toUpperCase_char l) \<and> case_variant ls bs"
        using lower_ascii_char [OF True l] IH by simp
      also have "\<dots> \<longleftrightarrow> case_variant (l # ls) (b # bs)"
        unfolding case_variant_Cons [OF l] t1 d1 using nk by auto
      finally show ?thesis
        unfolding s .
    next
      case False
      have nl: "b \<noteq> l" "b \<noteq> toUpperCase_char l"
        using False lower_letter_ascii [OF l] upper_letter_ascii [OF l] by auto
      have cv: "case_variant (l # ls) (b # bs)
                  \<longleftrightarrow> l = CHR ''k'' \<and> take 3 (b # bs) = kelvin_sign \<and> case_variant ls (drop 2 bs)"
        unfolding case_variant_Cons [OF l] t1 d1 d3 using nl by auto
      show ?thesis
      proof (cases "b # take (utf8_length b - 1) bs = kelvin_sign")
        case True
        then have len: "utf8_length b = 3" by (rule kelvin_lead)
        have t3: "take 3 (b # bs) = kelvin_sign"
          using True kelvin_chunk [of b bs] by blast
        have c2: "b # take 2 bs = kelvin_sign"
          using t3 by (simp add: numeral_3_eq_3 numeral_2_eq_2)
        have "lower_from ucd pre (b # bs)
                = CHR ''k'' # lower_from ucd (pre @ b # take 2 bs) (drop 2 bs)"
          using False c2 by (simp add: len)
        then have "lower_from ucd pre (b # bs) = l # ls
                \<longleftrightarrow> l = CHR ''k'' \<and> case_variant ls (drop 2 bs)"
          using IH by auto
        then show ?thesis
          unfolding s cv using t3 by simp
      next
        case nk: False
        then have "\<exists>x \<in> set (lower_from ucd pre (b # bs)). \<not> is_ascii x"
          using ucd False by (intro lower_from_non_ascii) simp_all
        moreover have "\<forall>x \<in> set (l # ls). is_ascii x"
          using Cons.prems lower_letter_ascii by (auto simp: list_all_iff)
        ultimately have "lower_from ucd pre (b # bs) \<noteq> l # ls"
          by metis
        moreover have "take 3 (b # bs) \<noteq> kelvin_sign"
          using nk kelvin_chunk [of b bs] by blast
        ultimately show ?thesis
          unfolding s cv by simp
      qed
    qed
  qed
qed

lemma toLowerCase_eq_iff:
  assumes "unicode_lowering ucd" "list_all is_lower_letter lit"
  shows "toLowerCase ucd s = lit \<longleftrightarrow> case_variant lit s"
  using lower_from_case_variant [OF assms] by (simp add: toLowerCase_def)

subsection \<open>Access gating\<close>

lemma role_admin_state: "role (roleInfo admin_state) = Some ''Admin''"
  by (simp add: admin_state_def callDetectEndpoint_def callDetectEndpoint_try_def office_server_def
      ok_def nullish_def opt_chain_def)

lemma role_user_state: "role (roleInfo user_state) = Some ''user''"
  by (simp add: user_state_def callDetectEndpoint_def callDetectEndpoint_try_def office_server_def
      ok_def nullish_def opt_chain_def)

lemma source_admin_state: "source (roleInfo admin_state) = Some ''10.0.0.1''"
  by (simp add: admin_state_def callDetectEndpoint_def callDetectEndpoint_try_def office_server_def
      ok_def nullish_def opt_chain_def)


lemma toLowerCase_Admin: "toLowerCase ucd ''Admin'' = ''admin''"
  by (simp add: toLowerCase_def is_ascii_def toLowerCase_char_def char_of_nat_eq eq_char_of_nat)

lemma toLowerCase_user: "toLowerCase ucd ''user'' = ''user''"
  by (simp add: toLowerCase_def is_ascii_def toLowerCase_char_def char_of_nat_eq eq_char_of_nat)


text \<open>
  What the handler does is decided by the role of the render that defined it. It navigates
  (to \<^verbatim>\<open>/admin\<close>) exactly when that role, lower-cased, is \<^verbatim>\<open>"admin"\<close>, an absent role counting
  as the empty string, and then changes nothing else. Otherwise nothing is navigated, the
  denial message is set, and a timer of 2500 ms is started whose callback clears the
  message. The state at the time of the call has no part in the decision.
\<close>

lemma handleAdminNavigate_decides_on_render:
  "(navigated (handleAdminNavigate ucd rendered st) = navigated st @ [''/admin'']
      \<longleftrightarrow> toLowerCase ucd (case role (roleInfo rendered) of None \<Rightarrow> '''' | Some r \<Rightarrow> r) = ''admin'')
   \<and> (if toLowerCase ucd (case role (roleInfo rendered) of None \<Rightarrow> '''' | Some r \<Rightarrow> r) = ''admin''
      then handleAdminNavigate ucd rendered st = st\<lparr>navigated := navigated st @ [''/admin'']\<rparr>
      else navigated (handleAdminNavigate ucd rendered st) = navigated st
         \<and> error (handleAdminNavigate ucd rendered st)
             = Some (''Access denied '' @ em_dash @ '' admin IP not detected.'')
         \<and> timers (handleAdminNavigate ucd rendered st) = timers st @ [(2500, ClearError)]
         \<and> error (run_callback ClearError (handleAdminNavigate ucd rendered st)) = None)"
proof -
  have n: "normalizedRole ucd rendered
             = toLowerCase ucd (case role (roleInfo rendered) of None \<Rightarrow> '''' | Some r \<Rightarrow> r)"
    by (simp add: normalizedRole_def js_or_def split: option.splits)
  show ?thesis
    by (simp add: handleAdminNavigate_def showAdminButton_def n run_callback_def)
qed

text \<open>
  When the render is the current one, the role \<^verbatim>\<open>"Admin"\<close> is let through and the role
  \<^verbatim>\<open>"user"\<close> is turned away.
\<close>

lemma handleAdminNavigate_current_render:
  "navigated (handleAdminNavigate ucd admin_state admin_state) = navigated admin_state @ [''/admin'']
   \<and> navigated (handleAdminNavigate ucd user_state user_state) = navigated user_state
   \<and> error (handleAdminNavigate ucd user_state user_state)
       = Some (''Access denied '' @ em_dash @ '' admin IP not detected.'')
   \<and> timers (handleAdminNavigate ucd user_state user_state) = timers user_state @ [(2500, ClearError)]
   \<and> error (run_callback ClearError (handleAdminNavigate ucd user_state user_state)) = None"
  using handleAdminNavigate_decides_on_render [of ucd admin_state admin_state]
    handleAdminNavigate_decides_on_render [of ucd user_state user_state]
  by (simp add: role_admin_state role_user_state toLowerCase_Admin toLowerCase_user)


subsection \<open>Failure of a report\<close>

lemma submitReport_try_throws:
  assumes "outcome = Rejected \<or> (\<exists>res. outcome = Resolved res \<and> \<not> ok res)"
  shows "\<exists>err. submitReport_try outcome st = (Some err, st)"
  using assms by (auto simp: submitReport_try_def)

text \<open>
  Claim C8. When the call of the report endpoint throws or is answered with a status outside
  200..299, \<^verbatim>\<open>submitReport\<close> returns normally with a report status of type \<^verbatim>\<open>"error"\<close>, and
  leaves \<^verbatim>\<open>showReport\<close> and \<^verbatim>\<open>reportPayload\<close> as they were: the modal stays open and what
  the user typed is kept.
\<close>

theorem submitReport_failure_keeps_modal:
  assumes "endpoint (reportPayload st) = Rejected
           \<or> (\<exists>res. endpoint (reportPayload st) = Resolved res \<and> \<not> ok res)"
  shows "fst (submitReport endpoint st) = None
       \<and> reportStatus (snd (submitReport endpoint st))
           = Some \<lparr> status_type = ''error'',
                    status_text = ''Could not submit report (backend may be missing).'' \<rparr>
       \<and> showReport (snd (submitReport endpoint st)) = showReport st
       \<and> reportPayload (snd (submitReport endpoint st)) = reportPayload st"
proof -
  let ?st2 = "st\<lparr>reportStatus :=
                    Some \<lparr> status_type = ''loading'', status_text = ''Submitting report...'' \<rparr>,
                  requests := requests st @ [PostReport (reportPayload st)]\<rparr>"
  obtain err where "submitReport_try (endpoint (reportPayload st)) ?st2 = (Some err, ?st2)"
    using submitReport_try_throws [OF assms] by blast
  then show ?thesis
    by (simp add: submitReport_def submitReport_catch_def)
qed

theorem submitReport_failure_keeps_modal_witness:
  "(missing_report_endpoint (reportPayload typed_report_state) = Rejected
      \<or> (\<exists>res. missing_report_endpoint (reportPayload typed_report_state) = Resolved res \<and> \<not> ok res))
   \<and> fst (submitReport missing_report_endpoint typed_report_state) = None
   \<and> reportStatus (snd (submitReport missing_report_endpoint typed_report_state))
       = Some \<lparr> status_type = ''error'',
                status_text = ''Could not submit report (backend may be missing).'' \<rparr>
   \<and> showReport (snd (submitReport missing_report_endpoint typed_report_state)) = True
   \<and> reportPayload (snd (submitReport missing_report_endpoint typed_report_state))
       = \<lparr> binId = ''BIN-A'', note_field = ''full'' \<rparr>"
proof -
  have h: "missing_report_endpoint (reportPayload typed_report_state) = Rejected
      \<or> (\<exists>res. missing_report_endpoint (reportPayload typed_report_state) = Resolved res \<and> \<not> ok res)"
    by (simp add: missing_report_endpoint_def)
  show ?thesis
    using h submitReport_failure_keeps_modal [of missing_report_endpoint typed_report_state]
    by (simp add: typed_report_state_def initial_state_def)
qed

subsection \<open>How \<^verbatim>\<open>roleInfo\<close> changes\<close>

lemma callDetectEndpoint_success:
  assumes "detect_success (server ip) = Some data"
  shows "roleInfo (snd (callDetectEndpoint server ip st))
           = \<lparr> role = Some (nullish (opt_chain data role) ''user''),
               source = Some (nullish (opt_chain data source) ip),
               id_field = opt_chain data id_field,
               description = Some (nullish (opt_chain data description) '''') \<rparr>"
  using assms
  by (auto simp: callDetectEndpoint_def callDetectEndpoint_try_def detect_success_def Let_def
      split: fetch_outcome.splits if_splits)

lemma callDetectEndpoint_no_success:
  assumes "detect_success (server ip) = None"
  shows "roleInfo (snd (callDetectEndpoint server ip st))
           = (roleInfo st)\<lparr>role := Some ''guest'', source := Some ip\<rparr>"
proof -
  have "server ip = Rejected \<or> (\<exists>res. server ip = Resolved res \<and> (\<not> ok res \<or> res_json res = None))"
    using assms by (auto simp: detect_success_def split: fetch_outcome.splits if_splits)
  then have "fst (callDetectEndpoint_try (server ip) ip
             (st\<lparr>loading := True, error := None, requests := requests st @ [PostDetect ip]\<rparr>)) \<noteq> None"
    by (rule callDetectEndpoint_try_throws)
  then show ?thesis
    using callDetectEndpoint_failure [of server ip st] by simp
qed

text \<open>
  Claim C9, as stated, has the failure path preserve \<^verbatim>\<open>source\<close>. It does not: the path
  writes the submitted address there. After the office server has recognised 10.0.0.1, a
  detection for 203.0.173.5 that cannot reach the server leaves the source 203.0.173.5.
\<close>

theorem failure_path_overwrites_source:
  "detect_success (unreachable_server ''203.0.173.5'') = None
   \<and> source (roleInfo admin_state) = Some ''10.0.0.1''
   \<and> source (roleInfo (snd (callDetectEndpoint unreachable_server ''203.0.173.5'' admin_state)))
       = Some ''203.0.173.5''"
proof -
  have f: "detect_success (unreachable_server ''203.0.173.5'') = None"
    by (simp add: detect_success_def unreachable_server_def)
  then have "roleInfo (snd (callDetectEndpoint unreachable_server ''203.0.173.5'' admin_state))
               = (roleInfo admin_state)\<lparr>role := Some ''guest'', source := Some ''203.0.173.5''\<rparr>"
    by (rule callDetectEndpoint_no_success)
  then show ?thesis
    using f by (simp add: source_admin_state)
qed

text \<open>
  Claim C9, amended. A detection call that succeeds replaces \<^verbatim>\<open>roleInfo\<close> by a record made
  of the response and the submitted address alone: role (\<^verbatim>\<open>"user"\<close> when absent), source (the
  submitted address when absent), id (null when absent) and description (the empty string
  when absent). A detection call that fails sets the role to \<^verbatim>\<open>"guest"\<close> and the source to the
  submitted address, and keeps the id and the description. Nothing else changes
  \<^verbatim>\<open>roleInfo\<close>: not the navigation handlers, not the submission of a report, not a timer.
\<close>

theorem roleInfo_updates:
  "roleInfo (snd (callDetectEndpoint server ip st))
     = (case detect_success (server ip) of
          Some data \<Rightarrow>
            \<lparr> role = Some (case opt_chain data role of None \<Rightarrow> ''user'' | Some r \<Rightarrow> r),
              source = Some (case opt_chain data source of None \<Rightarrow> ip | Some a \<Rightarrow> a),
              id_field = opt_chain data id_field,
              description = Some (case opt_chain data description of None \<Rightarrow> '''' | Some d \<Rightarrow> d) \<rparr>
        | None \<Rightarrow>
            \<lparr> role = Some ''guest'',
              source = Some ip,
              id_field = id_field (roleInfo st),
              description = description (roleInfo st) \<rparr>)
   \<and> roleInfo (handleAdminNavigate ucd rendered st) = roleInfo st
   \<and> roleInfo (handleDriverNavigate ucd rendered st) = roleInfo st
   \<and> roleInfo (snd (submitReport endpoint st)) = roleInfo st
   \<and> roleInfo (run_callback cb st) = roleInfo st"
proof -
  have a: "roleInfo (snd (callDetectEndpoint server ip st))
     = (case detect_success (server ip) of
          Some data \<Rightarrow>
            \<lparr> role = Some (case opt_chain data role of None \<Rightarrow> ''user'' | Some r \<Rightarrow> r),
              source = Some (case opt_chain data source of None \<Rightarrow> ip | Some a \<Rightarrow> a),
              id_field = opt_chain data id_field,
              description = Some (case opt_chain data description of None \<Rightarrow> '''' | Some d \<Rightarrow> d) \<rparr>
        | None \<Rightarrow>
            \<lparr> role = Some ''guest'',
              source = Some ip,
              id_field = id_field (roleInfo st),
              description = description (roleInfo st) \<rparr>)"
  proof (cases "detect_success (server ip)")
    case None
    then show ?thesis
      by (simp add: callDetectEndpoint_no_success)
  next
    case (Some data)
    then show ?thesis
      by (simp add: callDetectEndpoint_success nullish_def)
  qed
  have b: "roleInfo (handleAdminNavigate ucd rendered st) = roleInfo st"
    by (simp add: handleAdminNavigate_def)
  have c: "roleInfo (handleDriverNavigate ucd rendered st) = roleInfo st"
    by (simp add: handleDriverNavigate_def)
  have d: "roleInfo (snd (submitReport endpoint st)) = roleInfo st"
    by (auto simp: submitReport_def submitReport_try_def submitReport_catch_def Let_def
        split: fetch_outcome.splits option.splits prod.splits)
  have e: "roleInfo (run_callback cb st) = roleInfo st"
    by (cases cb) (simp_all add: run_callback_def)
  show ?thesis
    using a b c d e by simp
qed

subsection \<open>Marker colours\<close>

lemma status_or_empty:
  "js_or (status b) '''' = (case status b of None \<Rightarrow> '''' | Some s \<Rightarrow> s)"
  by (simp add: js_or_def split: option.splits)

lemma lower_words:
  "list_all is_lower_letter ''overflow''" "list_all is_lower_letter ''full''"
  "list_all is_lower_letter ''ok''" "list_all is_lower_letter ''normal''"
  by (simp_all add: is_lower_letter_def)

text \<open>
  Claim C10. The colour of a bin's marker is a function of the bin's status alone, an absent
  status counting as the empty string, and does not regard the case of the letters: red
  \<^verbatim>\<open>#ef4444\<close> when the status is \<^verbatim>\<open>overflow\<close> or \<^verbatim>\<open>full\<close> in any case, blue \<^verbatim>\<open>#0ea5e9\<close> when it
  is \<^verbatim>\<open>ok\<close> or \<^verbatim>\<open>normal\<close> in any case, and yellow \<^verbatim>\<open>#f59e0b\<close> for every other status.
\<close>

theorem BinMap_color_by_status:
  assumes "unicode_lowering ucd"
  shows "BinMap_color ucd b =
           (let s = (case status b of None \<Rightarrow> '''' | Some s \<Rightarrow> s)
            in if case_variant ''overflow'' s \<or> case_variant ''full'' s then ''#ef4444''
               else if case_variant ''ok'' s \<or> case_variant ''normal'' s then ''#0ea5e9''
               else ''#f59e0b'')"
  unfolding BinMap_color_def status_or_empty Let_def
    toLowerCase_eq_iff [OF assms lower_words(1)] toLowerCase_eq_iff [OF assms lower_words(2)]
    toLowerCase_eq_iff [OF assms lower_words(3)] toLowerCase_eq_iff [OF assms lower_words(4)]
  by simp

text \<open>
  The three bins of the dashboard, and five more statuses: \<^verbatim>\<open>Normal\<close>, \<^verbatim>\<open>O\<close> followed by the
  Kelvin sign, \<^verbatim>\<open>partially-filled\<close>, the empty string and no status.
\<close>

theorem BinMap_color_by_status_witness:
  "unicode_lowering identity_table
   \<and> BinMap_color identity_table bin_A = ''#ef4444''
   \<and> BinMap_color identity_table bin_B = ''#0ea5e9''
   \<and> BinMap_color identity_table bin_C = ''#ef4444''
   \<and> BinMap_color identity_table (bin_B\<lparr>status := Some ''Normal''\<rparr>) = ''#0ea5e9''
   \<and> BinMap_color identity_table (bin_B\<lparr>status := Some (''O'' @ kelvin_sign)\<rparr>) = ''#0ea5e9''
   \<and> BinMap_color identity_table (bin_B\<lparr>status := Some ''partially-filled''\<rparr>) = ''#f59e0b''
   \<and> BinMap_color identity_table (bin_B\<lparr>status := Some ''''\<rparr>) = ''#f59e0b''
   \<and> BinMap_color identity_table (bin_B\<lparr>status := None\<rparr>) = ''#f59e0b''"
proof -
  note ev = letter_variants_def is_lower_letter_def toUpperCase_char_def kelvin_sign_def
    char_of_nat_eq eq_char_of_nat
  note th = BinMap_color_by_status [OF identity_table_lowering]
  have "BinMap_color identity_table bin_A = ''#ef4444''"
    using th [of bin_A] by (simp add: bin_A_def ev)
  moreover have "BinMap_color identity_table bin_B = ''#0ea5e9''"
    using th [of bin_B] by (simp add: bin_B_def ev)
  moreover have "BinMap_color identity_table bin_C = ''#ef4444''"
    using th [of bin_C] by (simp add: bin_C_def ev)
  moreover have "BinMap_color identity_table (bin_B\<lparr>status := Some ''Normal''\<rparr>) = ''#0ea5e9''"
    using th [of "bin_B\<lparr>status := Some ''Normal''\<rparr>"] by (simp add: ev)
  moreover have "BinMap_color identity_table (bin_B\<lparr>status := Some (''O'' @ kelvin_sign)\<rparr>)
                   = ''#0ea5e9''"
    using th [of "bin_B\<lparr>status := Some (''O'' @ kelvin_sign)\<rparr>"] by (simp add: ev)
  moreover have "BinMap_color identity_table (bin_B\<lparr>status := Some ''partially-filled''\<rparr>)
                   = ''#f59e0b''"
    using th [of "bin_B\<lparr>status := Some ''partially-filled''\<rparr>"] by (simp add: ev)
  moreover have "BinMap_color identity_table (bin_B\<lparr>status := Some ''''\<rparr>) = ''#f59e0b''"
    using th [of "bin_B\<lparr>status := Some ''''\<rparr>"] by (simp add: ev)
  moreover have "BinMap_color identity_table (bin_B\<lparr>status := None\<rparr>) = ''#f59e0b''"
    using th [of "bin_B\<lparr>status := None\<rparr>"] by (simp add: ev)
  ultimately show ?thesis
    using identity_table_lowering by simp
qed

text \<open>
  The same colours come out of the definition itself, whatever the database says of other
  characters: none is looked up.
\<close>

lemma BinMap_color_examples:
  "BinMap_color ucd bin_A = ''#ef4444''"
  "BinMap_color ucd bin_B = ''#0ea5e9''"
  "BinMap_color ucd bin_C = ''#ef4444''"
  "BinMap_color ucd (bin_B\<lparr>status := Some (''O'' @ kelvin_sign)\<rparr>) = ''#0ea5e9''"
  "BinMap_color ucd (bin_B\<lparr>status := Some ''partially-filled''\<rparr>) = ''#f59e0b''"
  "BinMap_color ucd (bin_B\<lparr>status := None\<rparr>) = ''#f59e0b''"
  by (simp_all add: BinMap_color_def js_or_def bin_A_def bin_B_def bin_C_def toLowerCase_def
      is_ascii_def toLowerCase_char_def utf8_length_def kelvin_sign_def char_of_nat_eq
      eq_char_of_nat)

end
